theory Spec2Isabelle
  imports Main
begin

section \<open>Runtime values of the provider's untyped inputs\<close>

text \<open>
  \<^verbatim>\<open>parseAndValidate\<close> takes \<^verbatim>\<open>raw: any\<close> and the catalog body is whatever
  \<^verbatim>\<open>res.json()\<close> yields, so both are modelled as JavaScript data values: the JSON values
  together with \<^verbatim>\<open>undefined\<close> and the non-finite numbers. A number is an integer in
  the range that \<^verbatim>\<open>String\<close> prints in plain decimal digits, negative zero,
  \<^verbatim>\<open>NaN\<close> or an infinity. An object is the association list of its own properties,
  the first entry of a key being its value; it is a plain data object, which overrides no
  built-in member such as \<^verbatim>\<open>toString\<close>. The messages of the errors that the engine
  raises are those of V8, without the quotation marks.
\<close>

datatype jsnum = NumInt int | NegZero | NaN | PosInfinity | NegInfinity

datatype jsval =
    JUndefined
  | JNull
  | JBool bool
  | JNum jsnum
  | JStr string
  | JArr "jsval list"
  | JObj "(string \<times> jsval) list"

text \<open>Thrown values: the class that \<^verbatim>\<open>instanceof\<close> inspects, and the message.\<close>

datatype err_class = ErrorC | TypeErrorC | SyntaxErrorC | OtherC

datatype exn = Exn (cls: err_class) (msg: string)

text \<open>\<^verbatim>\<open>ToBoolean\<close>: what \<^verbatim>\<open>!v\<close>, \<^verbatim>\<open>v || d\<close> and \<^verbatim>\<open>v ? a : b\<close> test.\<close>

fun truthy :: "jsval \<Rightarrow> bool" where
  "truthy JUndefined = False"
| "truthy JNull = False"
| "truthy (JBool b) = b"
| "truthy (JNum n) = (n \<noteq> NumInt 0 \<and> n \<noteq> NegZero \<and> n \<noteq> NaN)"
| "truthy (JStr s) = (s \<noteq> [])"
| "truthy (JArr xs) = True"
| "truthy (JObj kvs) = True"

fun typeof :: "jsval \<Rightarrow> string" where
  "typeof JUndefined = ''undefined''"
| "typeof JNull = ''object''"
| "typeof (JBool b) = ''boolean''"
| "typeof (JNum n) = ''number''"
| "typeof (JStr s) = ''string''"
| "typeof (JArr xs) = ''object''"
| "typeof (JObj kvs) = ''object''"

text \<open>\<^verbatim>\<open>a || b\<close> on values.\<close>

definition js_or :: "jsval \<Rightarrow> jsval \<Rightarrow> jsval" where
  "js_or a b = (if truthy a then a else b)"

text \<open>
  The property read \<^verbatim>\<open>v.k\<close> for the keys this provider reads (\<^verbatim>\<open>mode\<close>,
  \<^verbatim>\<open>baseURL\<close>, \<^verbatim>\<open>apiKey\<close>, \<^verbatim>\<open>models\<close>, \<^verbatim>\<open>name\<close>, \<^verbatim>\<open>model\<close>), none of
  which is a built-in member of a primitive or of an array: reading from \<^verbatim>\<open>null\<close> or
  \<^verbatim>\<open>undefined\<close> throws a TypeError, an object yields its property or \<^verbatim>\<open>undefined\<close>,
  every other value yields \<^verbatim>\<open>undefined\<close>.
\<close>

fun getProp :: "jsval \<Rightarrow> string \<Rightarrow> exn + jsval" where
  "getProp JUndefined k =
     Inl (Exn TypeErrorC (''Cannot read properties of undefined (reading '' @ k @ '')''))"
| "getProp JNull k =
     Inl (Exn TypeErrorC (''Cannot read properties of null (reading '' @ k @ '')''))"
| "getProp (JObj kvs) k = Inr (case map_of kvs k of None \<Rightarrow> JUndefined | Some v \<Rightarrow> v)"
| "getProp v k = Inr JUndefined"

text \<open>\<^verbatim>\<open>String(v)\<close>.\<close>

fun digits :: "nat \<Rightarrow> string" where
  "digits n =
     (if n < 10 then [''0123456789'' ! n]
      else digits (n div 10) @ [''0123456789'' ! (n mod 10)])"

declare digits.simps [simp del]

fun num_toString :: "jsnum \<Rightarrow> string" where
  "num_toString (NumInt i) = (if i < 0 then ''-'' @ digits (nat (- i)) else digits (nat i))"
| "num_toString NegZero = ''0''"
| "num_toString NaN = ''NaN''"
| "num_toString PosInfinity = ''Infinity''"
| "num_toString NegInfinity = ''-Infinity''"

fun join_comma :: "string list \<Rightarrow> string" where
  "join_comma [] = []"
| "join_comma [s] = s"
| "join_comma (s # t # ss) = s @ '','' @ join_comma (t # ss)"

fun js_String :: "jsval \<Rightarrow> string" where
  "js_String JUndefined = ''undefined''"
| "js_String JNull = ''null''"
| "js_String (JBool b) = (if b then ''true'' else ''false'')"
| "js_String (JNum n) = num_toString n"
| "js_String (JStr s) = s"
| "js_String (JArr xs) =
     join_comma (map (\<lambda>x. if x = JUndefined \<or> x = JNull then [] else js_String x) xs)"
| "js_String (JObj kvs) = ''[object Object]''"

section \<open>The provider's data\<close>

datatype ollama_mode = Local | Cloud

record OllamaConfig =
  mode :: ollama_mode
  baseURL :: "string option"
  apiKey :: "string option"

text \<open>
  A \<^verbatim>\<open>Model\<close> is declared with two string fields, but the catalog projection stores
  whatever the response entry holds, so the fields carry values.
\<close>

record Model =
  name :: jsval
  key :: jsval

record ModelList =
  embedding :: "Model list"
  chat :: "Model list"

text \<open>Truthiness of an optional string field of the typed config.\<close>

fun str_truthy :: "string option \<Rightarrow> bool" where
  "str_truthy None = False"
| "str_truthy (Some s) = (s \<noteq> [])"

section \<open>parseAndValidate\<close>

definition parseAndValidate :: "jsval \<Rightarrow> exn + OllamaConfig" where
  \<open>parseAndValidate raw =
     (if \<not> truthy raw \<or> typeof raw \<noteq> ''object''
      then Inl (Exn ErrorC ''Invalid config provided. Expected object'')
      else (case getProp raw ''mode'' of
        Inl e \<Rightarrow> Inl e
      | Inr rawMode \<Rightarrow>
          (let m = js_or rawMode (JStr ''local'') in
           if m \<noteq> JStr ''local'' \<and> m \<noteq> JStr ''cloud''
           then Inl (Exn ErrorC ''Invalid mode. Must be "local" or "cloud"'')
           else (case getProp raw ''apiKey'' of
             Inl e \<Rightarrow> Inl e
           | Inr rawKey \<Rightarrow>
               (if m = JStr ''cloud'' \<and> \<not> truthy rawKey
                then Inl (Exn ErrorC
                  ''API Key is required for Ollama Cloud mode. Get one at https://ollama.com'')
                else (case getProp raw ''baseURL'' of
                  Inl e \<Rightarrow> Inl e
                | Inr rawURL \<Rightarrow>
                    Inr \<lparr> mode = (if m = JStr ''cloud'' then Cloud else Local),
                          baseURL = (if truthy rawURL then Some (js_String rawURL) else None),
                          apiKey = (if truthy rawKey then Some (js_String rawKey) else None)
                        \<rparr>))))))\<close>

section \<open>The collaborators: network, registry, model clients\<close>

text \<open>
  \<^verbatim>\<open>fetch\<close> and \<^verbatim>\<open>res.json()\<close> are the platform's; an awaited promise that rejects
  is a throw, so both are results in \<open>exn + _\<close>. The network is a parameter of every
  operation that reaches it. The code never looks at the status of the response.
\<close>

record request =
  url :: string
  httpMethod :: string
  headers :: "(string \<times> string) list"

record response =
  status :: nat
  json :: "exn + jsval"

type_synonym fetch_fn = "request \<Rightarrow> exn + response"

text \<open>
  \<^verbatim>\<open>getConfiguredModelProviderById\<close> lives in the server registry, outside this file:
  it is a parameter, returning the configured provider or nothing (\<^verbatim>\<open>undefined\<close>).
\<close>

record ConfigModelProvider =
  chatModels :: "Model list"
  embeddingModels :: "Model list"

type_synonym registry = "string \<Rightarrow> ConfigModelProvider option"

text \<open>
  The model clients \<^verbatim>\<open>OllamaLLM\<close> and \<^verbatim>\<open>OllamaEmbedding\<close> are built from an options
  object; a client is the constructor applied to the options it was given.
\<close>

record client_options =
  opt_baseURL :: string
  opt_model :: string
  opt_apiKey :: "string option"

datatype client = OllamaLLM client_options | OllamaEmbedding client_options

record OllamaProvider =
  providerId :: string
  providerName :: string
  config :: OllamaConfig

section \<open>getDefaultModels\<close>

text \<open>\<^verbatim>\<open>s || d\<close> and the template hole \<^verbatim>\<open>${s}\<close> for an optional string.\<close>

fun str_or :: "string option \<Rightarrow> string \<Rightarrow> string" where
  "str_or None d = d"
| "str_or (Some s) d = (if s = [] then d else s)"

fun str_template :: "string option \<Rightarrow> string" where
  "str_template None = ''undefined''"
| "str_template (Some s) = s"

text \<open>
  \<^verbatim>\<open>v.map(f)\<close>: on an array the callback runs over the entries in order and the first
  throw ends the call; on \<^verbatim>\<open>undefined\<close> or \<^verbatim>\<open>null\<close> the read of \<^verbatim>\<open>map\<close> throws
  a TypeError; on any other data value \<^verbatim>\<open>map\<close> is not a function, a TypeError as well.
\<close>

fun mapE :: "('a \<Rightarrow> exn + 'b) \<Rightarrow> 'a list \<Rightarrow> exn + 'b list" where
  "mapE f [] = Inr []"
| "mapE f (x # xs) =
     (case f x of
        Inl e \<Rightarrow> Inl e
      | Inr y \<Rightarrow> (case mapE f xs of Inl e \<Rightarrow> Inl e | Inr ys \<Rightarrow> Inr (y # ys)))"

fun js_map :: "jsval \<Rightarrow> (jsval \<Rightarrow> exn + 'b) \<Rightarrow> exn + 'b list" where
  "js_map (JArr xs) f = mapE f xs"
| "js_map JUndefined f =
     Inl (Exn TypeErrorC ''Cannot read properties of undefined (reading map)'')"
| "js_map JNull f =
     Inl (Exn TypeErrorC ''Cannot read properties of null (reading map)'')"
| "js_map v f = Inl (Exn TypeErrorC ''data.models.map is not a function'')"

text \<open>The callback of lines 83 to 88.\<close>

definition toModel :: "jsval \<Rightarrow> exn + Model" where
  "toModel m =
     (case getProp m ''name'' of
        Inl e \<Rightarrow> Inl e
      | Inr n \<Rightarrow>
          (case getProp m ''model'' of
             Inl e \<Rightarrow> Inl e
           | Inr k \<Rightarrow> Inr \<lparr> name = n, key = k \<rparr>))"

text \<open>The argument of \<^verbatim>\<open>fetch\<close>, lines 62 to 79.\<close>

definition catalogRequest :: "OllamaConfig \<Rightarrow> request" where
  "catalogRequest c =
     (let baseURL' =
            (if mode c = Cloud then ''https://ollama.com''
             else str_or (baseURL c) ''http://localhost:11434'');
          headers0 = [(''Content-type'', ''application/json'')];
          headers1 =
            (if mode c = Cloud \<and> str_truthy (apiKey c)
             then headers0 @ [(''Authorization'', ''Bearer '' @ str_template (apiKey c))]
             else headers0)
      in \<lparr> url = baseURL' @ ''/api/tags'', httpMethod = ''GET'', headers = headers1 \<rparr>)"

text \<open>The body of the \<^verbatim>\<open>try\<close>, lines 60 to 93.\<close>

definition getDefaultModels_try :: "OllamaConfig \<Rightarrow> fetch_fn \<Rightarrow> exn + ModelList" where
  "getDefaultModels_try c fetch =
     (case fetch (catalogRequest c) of
        Inl e \<Rightarrow> Inl e
      | Inr res \<Rightarrow>
          (case json res of
             Inl e \<Rightarrow> Inl e
           | Inr data \<Rightarrow>
               (case getProp data ''models'' of
                  Inl e \<Rightarrow> Inl e
                | Inr ms \<Rightarrow>
                    (case js_map ms toModel of
                       Inl e \<Rightarrow> Inl e
                     | Inr models \<Rightarrow> Inr \<lparr> embedding = models, chat = models \<rparr>))))"

text \<open>The \<^verbatim>\<open>catch\<close>, lines 94 to 102.\<close>

definition getDefaultModels :: "OllamaConfig \<Rightarrow> fetch_fn \<Rightarrow> exn + ModelList" where
  "getDefaultModels c fetch =
     (case getDefaultModels_try c fetch of
        Inl err \<Rightarrow>
          (if cls err = TypeErrorC
           then Inl (Exn ErrorC
             ''Error connecting to Ollama API. Please ensure the base URL is correct and the Ollama server is running.'')
           else Inl err)
      | Inr r \<Rightarrow> Inr r)"

section \<open>getModelList, loadChatModel, loadEmbeddingModel\<close>

text \<open>
  The non-null assertion of line 107 is erased at run time: when the registry has no
  entry, the read of \<^verbatim>\<open>embeddingModels\<close> (the first spread evaluated) throws.
\<close>

definition getModelList :: "OllamaProvider \<Rightarrow> fetch_fn \<Rightarrow> registry \<Rightarrow> exn + ModelList" where
  "getModelList this fetch reg =
     (case getDefaultModels (config this) fetch of
        Inl e \<Rightarrow> Inl e
      | Inr defaultModels \<Rightarrow>
          (case reg (providerId this) of
             None \<Rightarrow>
               Inl (Exn TypeErrorC
                 ''Cannot read properties of undefined (reading embeddingModels)'')
           | Some configProvider \<Rightarrow>
               Inr \<lparr> embedding = embedding defaultModels @ embeddingModels configProvider,
                     chat = chat defaultModels @ chatModels configProvider \<rparr>))"

definition loadChatModel ::
  "OllamaProvider \<Rightarrow> fetch_fn \<Rightarrow> registry \<Rightarrow> string \<Rightarrow> exn + client" where
  "loadChatModel this fetch reg k =
     (case getModelList this fetch reg of
        Inl e \<Rightarrow> Inl e
      | Inr modelList \<Rightarrow>
          (let exists = find (\<lambda>m. key m = JStr k) (chat modelList) in
           if exists = None
           then Inl (Exn ErrorC ''Error Loading Ollama Chat Model. Invalid Model Selected'')
           else
             (let baseURL' =
                    (if mode (config this) = Cloud then ''https://ollama.com''
                     else str_or (baseURL (config this)) ''http://localhost:11434'')
              in Inr (OllamaLLM
                   \<lparr> opt_baseURL = baseURL',
                     opt_model = k,
                     opt_apiKey =
                       (if mode (config this) = Cloud then apiKey (config this) else None)
                   \<rparr>))))"

definition loadEmbeddingModel ::
  "OllamaProvider \<Rightarrow> fetch_fn \<Rightarrow> registry \<Rightarrow> string \<Rightarrow> exn + client" where
  "loadEmbeddingModel this fetch reg k =
     (case getModelList this fetch reg of
        Inl e \<Rightarrow> Inl e
      | Inr modelList \<Rightarrow>
          (let exists = find (\<lambda>m. key m = JStr k) (embedding modelList) in
           if exists = None
           then Inl (Exn ErrorC
             ''Error Loading Ollama Embedding Model. Invalid Model Selected.'')
           else
             (let baseURL' =
                    (if mode (config this) = Cloud then ''https://ollama.com''
                     else str_or (baseURL (config this)) ''http://localhost:11434'')
              in Inr (OllamaEmbedding
                   \<lparr> opt_baseURL = baseURL',
                     opt_model = k,
                     opt_apiKey =
                       (if mode (config this) = Cloud then apiKey (config this) else None)
                   \<rparr>))))"

section \<open>Vocabulary of the specification\<close>

text \<open>
  An object is a non-null value whose \<^verbatim>\<open>typeof\<close> is \<^verbatim>\<open>object\<close>; arrays are objects.
  \<open>member v k\<close> is the value of \<^verbatim>\<open>v.k\<close> where the read does not throw.
\<close>

definition is_object :: "jsval \<Rightarrow> bool" where
  "is_object v = (case v of JObj kvs \<Rightarrow> True | JArr xs \<Rightarrow> True | _ \<Rightarrow> False)"

definition member :: "jsval \<Rightarrow> string \<Rightarrow> jsval" where
  "member v k = (case getProp v k of Inl e \<Rightarrow> JUndefined | Inr x \<Rightarrow> x)"

text \<open>
  The error kinds of the specification. The code throws plain \<^verbatim>\<open>Error\<close> objects, told
  apart by their messages.
\<close>

definition is_ConfigError :: "exn \<Rightarrow> bool" where
  \<open>is_ConfigError e =
     (cls e = ErrorC \<and>
      (msg e = ''Invalid config provided. Expected object'' \<or>
       msg e = ''Invalid mode. Must be "local" or "cloud"'' \<or>
       msg e = ''API Key is required for Ollama Cloud mode. Get one at https://ollama.com''))\<close>

definition ConnectionError :: exn where
  "ConnectionError =
     Exn ErrorC
       ''Error connecting to Ollama API. Please ensure the base URL is correct and the Ollama server is running.''"

definition ChatModelNotFoundError :: exn where
  "ChatModelNotFoundError =
     Exn ErrorC ''Error Loading Ollama Chat Model. Invalid Model Selected''"

definition EmbeddingModelNotFoundError :: exn where
  "EmbeddingModelNotFoundError =
     Exn ErrorC ''Error Loading Ollama Embedding Model. Invalid Model Selected.''"

definition is_specified_error :: "exn \<Rightarrow> bool" where
  "is_specified_error e =
     (is_ConfigError e \<or> e = ConnectionError \<or> e = ChatModelNotFoundError \<or>
      e = EmbeddingModelNotFoundError)"

text \<open>The mode that the validation goes on with: \<^verbatim>\<open>raw.mode || 'local'\<close>.\<close>

definition effective_mode :: "jsval \<Rightarrow> jsval" where
  "effective_mode raw = js_or (member raw ''mode'') (JStr ''local'')"



text \<open>
  \<^verbatim>\<open>resolveBaseURL\<close> in the words of the specification; a base URL or key is set when it
  is present and not the empty string. The code has no such function: it repeats the
  expression in each operation.
\<close>

definition resolveBaseURL :: "OllamaConfig \<Rightarrow> string" where
  "resolveBaseURL c =
     (case mode c of
        Cloud \<Rightarrow> ''https://ollama.com''
      | Local \<Rightarrow>
          (case baseURL c of
             None \<Rightarrow> ''http://localhost:11434''
           | Some u \<Rightarrow> (if u = [] then ''http://localhost:11434'' else u)))"


text \<open>
  The entries of a body of the expected shape: \<^verbatim>\<open>models\<close> is an array and no entry is
  \<^verbatim>\<open>null\<close> or \<^verbatim>\<open>undefined\<close>. \<open>project\<close> is the \<^verbatim>\<open>Model\<close> of an entry.
\<close>

definition catalog_entries :: "jsval \<Rightarrow> jsval list option" where
  "catalog_entries body =
     (case getProp body ''models'' of
        Inr (JArr ms) \<Rightarrow>
          (if list_all (\<lambda>m. m \<noteq> JUndefined \<and> m \<noteq> JNull) ms then Some ms else None)
      | _ \<Rightarrow> None)"

definition project :: "jsval \<Rightarrow> Model" where
  "project m = \<lparr> name = member m ''name'', key = member m ''model'' \<rparr>"

text \<open>Sample collaborators for the concrete instances below.\<close>

definition respond :: "response \<Rightarrow> fetch_fn" where
  "respond r req = Inr r"

definition refuse :: "exn \<Rightarrow> fetch_fn" where
  "refuse e req = Inl e"

definition registry_of :: "string \<Rightarrow> ConfigModelProvider \<Rightarrow> registry" where
  "registry_of i p j = (if j = i then Some p else None)"

definition no_registry :: registry where
  "no_registry j = None"

definition local_config :: OllamaConfig where
  "local_config = \<lparr> mode = Local, baseURL = None, apiKey = None \<rparr>"

definition cloud_config :: OllamaConfig where
  "cloud_config = \<lparr> mode = Cloud, baseURL = None, apiKey = Some ''k1'' \<rparr>"

definition llama_body :: jsval where
  "llama_body =
     JObj [(''models'', JArr [JObj [(''name'', JStr ''Llama 3''), (''model'', JStr ''llama3'')]])]"

definition llama :: Model where
  "llama = \<lparr> name = JStr ''Llama 3'', key = JStr ''llama3'' \<rparr>"

definition llama_net :: fetch_fn where
  "llama_net = respond \<lparr> status = 200, json = Inr llama_body \<rparr>"

definition llama_registry :: registry where
  "llama_registry = registry_of ''p1'' \<lparr> chatModels = [llama], embeddingModels = [] \<rparr>"

definition local_provider :: OllamaProvider where
  "local_provider = \<lparr> providerId = ''p1'', providerName = ''Ollama'', config = local_config \<rparr>"

definition cloud_provider :: OllamaProvider where
  "cloud_provider = \<lparr> providerId = ''p1'', providerName = ''Ollama'', config = cloud_config \<rparr>"

text \<open>The TypeError of reading \<^verbatim>\<open>embeddingModels\<close> from \<^verbatim>\<open>undefined\<close>.\<close>

definition UndefinedProviderError :: exn where
  "UndefinedProviderError =
     Exn TypeErrorC ''Cannot read properties of undefined (reading embeddingModels)''"

text \<open>
  The rest of the \<^verbatim>\<open>try\<close> once the body has been parsed: lines 83 to 93.
\<close>

definition read_models :: "jsval \<Rightarrow> exn + ModelList" where
  "read_models body =
     (case getProp body ''models'' of
        Inl e \<Rightarrow> Inl e
      | Inr ms \<Rightarrow>
          (case js_map ms toModel of
             Inl e \<Rightarrow> Inl e
           | Inr models \<Rightarrow> Inr \<lparr> embedding = models, chat = models \<rparr>))"

section \<open>Properties of parseAndValidate\<close>

lemma is_object_iff: "is_object raw \<longleftrightarrow> truthy raw \<and> typeof raw = ''object''"
  by (cases raw) (simp_all add: is_object_def)

lemma getProp_object: "is_object raw \<Longrightarrow> getProp raw k = Inr (member raw k)"
  by (cases raw) (simp_all add: is_object_def member_def)

lemma parseAndValidate_unfold:
  \<open>parseAndValidate raw =
     (if \<not> is_object raw
      then Inl (Exn ErrorC ''Invalid config provided. Expected object'')
      else if effective_mode raw \<noteq> JStr ''local'' \<and> effective_mode raw \<noteq> JStr ''cloud''
      then Inl (Exn ErrorC ''Invalid mode. Must be "local" or "cloud"'')
      else if effective_mode raw = JStr ''cloud'' \<and> \<not> truthy (member raw ''apiKey'')
      then Inl (Exn ErrorC
        ''API Key is required for Ollama Cloud mode. Get one at https://ollama.com'')
      else Inr \<lparr> mode = (if effective_mode raw = JStr ''cloud'' then Cloud else Local),
                 baseURL = (if truthy (member raw ''baseURL'')
                            then Some (js_String (member raw ''baseURL'')) else None),
                 apiKey = (if truthy (member raw ''apiKey'')
                           then Some (js_String (member raw ''apiKey'')) else None) \<rparr>)\<close>
proof (cases "is_object raw")
  case False
  then show ?thesis by (simp add: parseAndValidate_def is_object_iff)
next
  case True
  then have "truthy raw \<and> typeof raw = ''object''" by (simp add: is_object_iff)
  with True show ?thesis
    by (simp add: parseAndValidate_def getProp_object effective_mode_def Let_def)
qed




section \<open>Properties of getDefaultModels\<close>

lemma toModel_unfold:
  "toModel m =
     (if m = JUndefined \<or> m = JNull
      then Inl (Exn TypeErrorC
        (''Cannot read properties of '' @ (if m = JNull then ''null'' else ''undefined'')
           @ '' (reading name)''))
      else Inr (project m))"
  by (cases m) (simp_all add: toModel_def project_def member_def)

lemma mapE_toModel_ok:
  "list_all (\<lambda>m. m \<noteq> JUndefined \<and> m \<noteq> JNull) ms \<Longrightarrow> mapE toModel ms = Inr (map project ms)"
proof (induction ms)
  case Nil
  then show ?case by simp
next
  case (Cons m ms)
  then have "toModel m = Inr (project m)" by (simp add: toModel_unfold)
  with Cons show ?case by simp
qed

lemma mapE_toModel_fail:
  "\<not> list_all (\<lambda>m. m \<noteq> JUndefined \<and> m \<noteq> JNull) ms \<Longrightarrow>
     \<exists>e. mapE toModel ms = Inl e \<and> cls e = TypeErrorC"
proof (induction ms)
  case Nil
  then show ?case by simp
next
  case (Cons m ms)
  show ?case
  proof (cases "m = JUndefined \<or> m = JNull")
    case True
    then obtain e where "toModel m = Inl e" "cls e = TypeErrorC"
      by (auto simp: toModel_unfold)
    then show ?thesis by simp
  next
    case False
    with Cons.prems have "\<not> list_all (\<lambda>m. m \<noteq> JUndefined \<and> m \<noteq> JNull) ms" by simp
    from Cons.IH [OF this] obtain e where "mapE toModel ms = Inl e" "cls e = TypeErrorC"
      by blast
    moreover from False have "toModel m = Inr (project m)" by (simp add: toModel_unfold)
    ultimately show ?thesis by simp
  qed
qed

lemma js_map_not_array:
  "\<forall>ms. v \<noteq> JArr ms \<Longrightarrow> \<exists>e. js_map v f = Inl e \<and> cls e = TypeErrorC"
  by (cases v) simp_all

lemma read_models_ok:
  assumes "catalog_entries body = Some ms"
  shows "read_models body = Inr \<lparr> embedding = map project ms, chat = map project ms \<rparr>"
proof -
  from assms have g: "getProp body ''models'' = Inr (JArr ms)"
    and a: "list_all (\<lambda>m. m \<noteq> JUndefined \<and> m \<noteq> JNull) ms"
    by (auto simp: catalog_entries_def split: sum.splits jsval.splits if_splits)
  show ?thesis by (simp add: read_models_def g mapE_toModel_ok [OF a])
qed

lemma read_models_bad:
  assumes "catalog_entries body = None"
  shows "\<exists>e. read_models body = Inl e \<and> cls e = TypeErrorC"
proof (cases "getProp body ''models''")
  case (Inl e)
  then have "cls e = TypeErrorC" by (cases body) auto
  with Inl show ?thesis by (simp add: read_models_def)
next
  case (Inr v)
  show ?thesis
  proof (cases "\<exists>ms. v = JArr ms")
    case True
    then obtain ms where v: "v = JArr ms" by blast
    with assms Inr have "\<not> list_all (\<lambda>m. m \<noteq> JUndefined \<and> m \<noteq> JNull) ms"
      by (auto simp: catalog_entries_def split: if_splits)
    from mapE_toModel_fail [OF this] obtain e where "mapE toModel ms = Inl e" "cls e = TypeErrorC"
      by blast
    with Inr v show ?thesis by (simp add: read_models_def)
  next
    case False
    then have "\<forall>ms. v \<noteq> JArr ms" by blast
    from js_map_not_array [OF this] obtain e
      where "js_map v toModel = Inl e" "cls e = TypeErrorC" by blast
    with Inr show ?thesis by (simp add: read_models_def)
  qed
qed

lemma getDefaultModels_try_unfold:
  "getDefaultModels_try c fetch =
     (case fetch (catalogRequest c) of
        Inl e \<Rightarrow> Inl e
      | Inr res \<Rightarrow> (case json res of Inl e \<Rightarrow> Inl e | Inr body \<Rightarrow> read_models body))"
  by (simp add: getDefaultModels_try_def read_models_def split: sum.splits)

lemma getDefaultModels_transport:
  "fetch (catalogRequest c) = Inl e \<Longrightarrow>
     getDefaultModels c fetch = (if cls e = TypeErrorC then Inl ConnectionError else Inl e)"
  by (simp add: getDefaultModels_def getDefaultModels_try_unfold ConnectionError_def)

lemma getDefaultModels_json:
  "fetch (catalogRequest c) = Inr res \<Longrightarrow> json res = Inl e \<Longrightarrow>
     getDefaultModels c fetch = (if cls e = TypeErrorC then Inl ConnectionError else Inl e)"
  by (simp add: getDefaultModels_def getDefaultModels_try_unfold ConnectionError_def)

lemma getDefaultModels_shape_ok:
  "fetch (catalogRequest c) = Inr res \<Longrightarrow> json res = Inr body \<Longrightarrow>
   catalog_entries body = Some ms \<Longrightarrow>
     getDefaultModels c fetch = Inr \<lparr> embedding = map project ms, chat = map project ms \<rparr>"
  by (simp add: getDefaultModels_def getDefaultModels_try_unfold read_models_ok)

lemma getDefaultModels_shape_bad:
  assumes "fetch (catalogRequest c) = Inr res" "json res = Inr body"
    "catalog_entries body = None"
  shows "getDefaultModels c fetch = Inl ConnectionError"
proof -
  from read_models_bad [OF assms(3)] obtain e
    where "read_models body = Inl e" "cls e = TypeErrorC" by blast
  with assms(1,2) show ?thesis
    by (simp add: getDefaultModels_def getDefaultModels_try_unfold ConnectionError_def)
qed

text \<open>
  C2, as amended. The \<^verbatim>\<open>catch\<close> tests the class of the error, not where it arose. A
  transport failure, which \<^verbatim>\<open>fetch\<close> reports as a TypeError, becomes the connection
  error whose message asks to check the base URL and that the server is running; so does
  every other TypeError of the \<^verbatim>\<open>try\<close>, in particular the one raised when the parsed
  body has no \<^verbatim>\<open>models\<close> array or holds a \<^verbatim>\<open>null\<close> entry. An error of any other
  class, such as the SyntaxError of a malformed JSON body, reaches the caller unchanged, and
  these are the only failures.
\<close>

theorem getDefaultModels_failures:
  "(\<forall>e. fetch (catalogRequest c) = Inl e \<and> cls e = TypeErrorC \<longrightarrow>
      getDefaultModels c fetch = Inl ConnectionError) \<and>
   (\<forall>e. fetch (catalogRequest c) = Inl e \<and> cls e \<noteq> TypeErrorC \<longrightarrow>
      getDefaultModels c fetch = Inl e) \<and>
   (\<forall>res e. fetch (catalogRequest c) = Inr res \<and> json res = Inl e \<longrightarrow>
      getDefaultModels c fetch = (if cls e = TypeErrorC then Inl ConnectionError else Inl e)) \<and>
   (\<forall>res body. fetch (catalogRequest c) = Inr res \<and> json res = Inr body \<and>
      catalog_entries body = None \<longrightarrow>
      getDefaultModels c fetch = Inl ConnectionError) \<and>
   (\<forall>e. getDefaultModels c fetch = Inl e \<longrightarrow>
      e = ConnectionError \<or>
      (cls e \<noteq> TypeErrorC \<and>
       (fetch (catalogRequest c) = Inl e \<or>
        (\<exists>res. fetch (catalogRequest c) = Inr res \<and> json res = Inl e)))) \<and>
   ConnectionError =
     Exn ErrorC
       ''Error connecting to Ollama API. Please ensure the base URL is correct and the Ollama server is running.''"
proof (intro conjI allI impI)
  fix e assume "fetch (catalogRequest c) = Inl e \<and> cls e = TypeErrorC"
  then show "getDefaultModels c fetch = Inl ConnectionError"
    by (simp add: getDefaultModels_transport)
next
  fix e assume "fetch (catalogRequest c) = Inl e \<and> cls e \<noteq> TypeErrorC"
  then show "getDefaultModels c fetch = Inl e"
    by (simp add: getDefaultModels_transport)
next
  fix res e assume "fetch (catalogRequest c) = Inr res \<and> json res = Inl e"
  then show "getDefaultModels c fetch = (if cls e = TypeErrorC then Inl ConnectionError else Inl e)"
    by (simp add: getDefaultModels_json)
next
  fix res body
  assume "fetch (catalogRequest c) = Inr res \<and> json res = Inr body \<and> catalog_entries body = None"
  then show "getDefaultModels c fetch = Inl ConnectionError"
    by (simp add: getDefaultModels_shape_bad)
next
  fix e assume f: "getDefaultModels c fetch = Inl e"
  show "e = ConnectionError \<or>
      (cls e \<noteq> TypeErrorC \<and>
       (fetch (catalogRequest c) = Inl e \<or>
        (\<exists>res. fetch (catalogRequest c) = Inr res \<and> json res = Inl e)))"
  proof (cases "fetch (catalogRequest c)")
    case (Inl e')
    with f show ?thesis by (auto simp: getDefaultModels_transport split: if_splits)
  next
    case (Inr res)
    show ?thesis
    proof (cases "json res")
      case (Inl e')
      with Inr f show ?thesis by (auto simp: getDefaultModels_json split: if_splits)
    next
      case body: (Inr body)
      show ?thesis
      proof (cases "catalog_entries body")
        case None
        with Inr body f show ?thesis by (simp add: getDefaultModels_shape_bad)
      next
        case (Some ms)
        with Inr body f show ?thesis by (simp add: getDefaultModels_shape_ok)
      qed
    qed
  qed
next
  show "ConnectionError =
     Exn ErrorC
       ''Error connecting to Ollama API. Please ensure the base URL is correct and the Ollama server is running.''"
    by (simp add: ConnectionError_def)
qed

theorem getDefaultModels_failures_witness:
  "refuse (Exn TypeErrorC ''fetch failed'') (catalogRequest local_config) =
     Inl (Exn TypeErrorC ''fetch failed'') \<and>
   cls (Exn TypeErrorC ''fetch failed'') = TypeErrorC \<and>
   getDefaultModels local_config (refuse (Exn TypeErrorC ''fetch failed'')) =
     Inl ConnectionError \<and>
   getDefaultModels local_config (refuse (Exn OtherC ''The operation was aborted'')) =
     Inl (Exn OtherC ''The operation was aborted'') \<and>
   getDefaultModels local_config
     (respond \<lparr> status = 200, json = Inl (Exn SyntaxErrorC ''Unexpected token'') \<rparr>) =
     Inl (Exn SyntaxErrorC ''Unexpected token'') \<and>
   catalog_entries (JObj [(''models'', JArr [JNull])]) = None \<and>
   getDefaultModels local_config
     (respond \<lparr> status = 200, json = Inr (JObj [(''models'', JArr [JNull])]) \<rparr>) =
     Inl ConnectionError"
  using getDefaultModels_failures
    [of "refuse (Exn TypeErrorC ''fetch failed'')" local_config]
    getDefaultModels_failures
    [of "refuse (Exn OtherC ''The operation was aborted'')" local_config]
    getDefaultModels_failures
    [of "respond \<lparr> status = 200, json = Inl (Exn SyntaxErrorC ''Unexpected token'') \<rparr>"
      local_config]
    getDefaultModels_failures
    [of "respond \<lparr> status = 200, json = Inr (JObj [(''models'', JArr [JNull])]) \<rparr>"
      local_config]
  by (simp add: refuse_def respond_def catalog_entries_def)

text \<open>
  C2 as stated fails on a body without a \<^verbatim>\<open>models\<close> array: \<^verbatim>\<open>fetch\<close> delivered a
  response and the body parsed to \<^verbatim>\<open>{}\<close>, the \<^verbatim>\<open>try\<close> raised the TypeError of
  \<^verbatim>\<open>data.models.map\<close>, and the caller receives the connection error instead of it.
\<close>

theorem getDefaultModels_shape_counterexample:
  "respond \<lparr> status = 200, json = Inr (JObj []) \<rparr> (catalogRequest local_config) =
     Inr \<lparr> status = 200, json = Inr (JObj []) \<rparr> \<and>
   getDefaultModels_try local_config (respond \<lparr> status = 200, json = Inr (JObj []) \<rparr>) =
     Inl (Exn TypeErrorC ''Cannot read properties of undefined (reading map)'') \<and>
   getDefaultModels local_config (respond \<lparr> status = 200, json = Inr (JObj []) \<rparr>) =
     Inl ConnectionError \<and>
   ConnectionError \<noteq> Exn TypeErrorC ''Cannot read properties of undefined (reading map)''"
  by (simp add: respond_def getDefaultModels_def getDefaultModels_try_def ConnectionError_def)

section \<open>Properties of the catalog projection and request\<close>

text \<open>
  C6. When the catalog answers and its body holds a \<^verbatim>\<open>models\<close> array,
  \<^verbatim>\<open>getDefaultModels\<close> returns, for each entry in order, the \<^verbatim>\<open>Model\<close> whose
  \<^verbatim>\<open>name\<close> is the entry's \<^verbatim>\<open>name\<close> and whose \<^verbatim>\<open>key\<close> is the entry's
  \<^verbatim>\<open>model\<close>, as the chat list and as the embedding list alike. Conversely every list
  it returns arises this way, and chat equals embedding.
\<close>

theorem getDefaultModels_projection:
  "(\<forall>res body ms.
      fetch (catalogRequest c) = Inr res \<and> json res = Inr body \<and>
      catalog_entries body = Some ms \<longrightarrow>
      getDefaultModels c fetch =
        Inr \<lparr> embedding = map (\<lambda>m. \<lparr> name = member m ''name'', key = member m ''model'' \<rparr>) ms,
              chat = map (\<lambda>m. \<lparr> name = member m ''name'', key = member m ''model'' \<rparr>) ms \<rparr>) \<and>
   (\<forall>ml. getDefaultModels c fetch = Inr ml \<longrightarrow>
      chat ml = embedding ml \<and>
      (\<exists>res body ms.
         fetch (catalogRequest c) = Inr res \<and> json res = Inr body \<and>
         getProp body ''models'' = Inr (JArr ms) \<and>
         chat ml = map (\<lambda>m. \<lparr> name = member m ''name'', key = member m ''model'' \<rparr>) ms))"
proof (intro conjI allI impI)
  fix res body ms
  assume "fetch (catalogRequest c) = Inr res \<and> json res = Inr body \<and>
      catalog_entries body = Some ms"
  then have "getDefaultModels c fetch =
      Inr \<lparr> embedding = map project ms, chat = map project ms \<rparr>"
    by (simp add: getDefaultModels_shape_ok)
  moreover have "project = (\<lambda>m. \<lparr> name = member m ''name'', key = member m ''model'' \<rparr>)"
    by (rule ext) (simp add: project_def)
  ultimately show "getDefaultModels c fetch =
        Inr \<lparr> embedding = map (\<lambda>m. \<lparr> name = member m ''name'', key = member m ''model'' \<rparr>) ms,
              chat = map (\<lambda>m. \<lparr> name = member m ''name'', key = member m ''model'' \<rparr>) ms \<rparr>"
    by simp
next
  fix ml assume ok: "getDefaultModels c fetch = Inr ml"
  have pr: "project = (\<lambda>m. \<lparr> name = member m ''name'', key = member m ''model'' \<rparr>)"
    by (rule ext) (simp add: project_def)
  have "chat ml = embedding ml \<and>
      (\<exists>res body ms.
         fetch (catalogRequest c) = Inr res \<and> json res = Inr body \<and>
         getProp body ''models'' = Inr (JArr ms) \<and> chat ml = map project ms)"
  proof (cases "fetch (catalogRequest c)")
    case (Inl e)
    with ok show ?thesis by (simp add: getDefaultModels_transport split: if_splits)
  next
    case (Inr res)
    show ?thesis
    proof (cases "json res")
      case (Inl e)
      with Inr ok show ?thesis by (simp add: getDefaultModels_json split: if_splits)
    next
      case body: (Inr body)
      show ?thesis
      proof (cases "catalog_entries body")
        case None
        with Inr body ok show ?thesis
          by (simp add: getDefaultModels_shape_bad ConnectionError_def)
      next
        case (Some ms)
        then have "getProp body ''models'' = Inr (JArr ms)"
          by (auto simp: catalog_entries_def split: sum.splits jsval.splits if_splits)
        moreover from Inr body Some ok
        have "ml = \<lparr> embedding = map project ms, chat = map project ms \<rparr>"
          by (simp add: getDefaultModels_shape_ok)
        ultimately show ?thesis using Inr body by simp
      qed
    qed
  qed
  then show "chat ml = embedding ml" by simp
  from \<open>chat ml = embedding ml \<and> _\<close> show "\<exists>res body ms.
         fetch (catalogRequest c) = Inr res \<and> json res = Inr body \<and>
         getProp body ''models'' = Inr (JArr ms) \<and>
         chat ml = map (\<lambda>m. \<lparr> name = member m ''name'', key = member m ''model'' \<rparr>) ms"
    unfolding pr by blast
qed

theorem getDefaultModels_projection_witness:
  "respond \<lparr> status = 200, json = Inr llama_body \<rparr> (catalogRequest local_config) =
     Inr \<lparr> status = 200, json = Inr llama_body \<rparr> \<and>
   catalog_entries llama_body =
     Some [JObj [(''name'', JStr ''Llama 3''), (''model'', JStr ''llama3'')]] \<and>
   getDefaultModels local_config (respond \<lparr> status = 200, json = Inr llama_body \<rparr>) =
     Inr \<lparr> embedding = [\<lparr> name = JStr ''Llama 3'', key = JStr ''llama3'' \<rparr>],
           chat = [\<lparr> name = JStr ''Llama 3'', key = JStr ''llama3'' \<rparr>] \<rparr>"
  using getDefaultModels_projection
    [of "respond \<lparr> status = 200, json = Inr llama_body \<rparr>" local_config]
  by (simp add: respond_def llama_body_def catalog_entries_def member_def)




section \<open>Properties of getModelList\<close>

lemma llama_net_models:
  "getDefaultModels c llama_net = Inr \<lparr> embedding = [llama], chat = [llama] \<rparr>"
  by (simp add: getDefaultModels_def getDefaultModels_try_def llama_net_def respond_def
      llama_body_def toModel_def llama_def)

lemma llama_registry_p1:
  "llama_registry ''p1'' = Some \<lparr> chatModels = [llama], embeddingModels = [] \<rparr>"
  by (simp add: llama_registry_def registry_of_def)

lemma getModelList_Some:
  "getDefaultModels (config this) fetch = Inr d \<Longrightarrow> reg (providerId this) = Some p \<Longrightarrow>
     getModelList this fetch reg =
       Inr \<lparr> embedding = embedding d @ embeddingModels p, chat = chat d @ chatModels p \<rparr>"
  by (simp add: getModelList_def)

text \<open>
  C3. When the catalog listing succeeds and the registry has an entry for the provider's
  id, \<^verbatim>\<open>getModelList\<close> returns, for chat and for embedding separately, the catalog list
  followed by the registry's list. Nothing is removed: for every key, the number of
  entries with that key is the sum of the numbers in the two sources, so a key present in
  both appears twice.
\<close>

theorem getModelList_concat:
  assumes "getDefaultModels (config this) fetch = Inr d"
    and "reg (providerId this) = Some p"
  shows "getModelList this fetch reg =
       Inr \<lparr> embedding = embedding d @ embeddingModels p, chat = chat d @ chatModels p \<rparr> \<and>
     (\<forall>k. length (filter (\<lambda>m. key m = k) (chat d @ chatModels p)) =
           length (filter (\<lambda>m. key m = k) (chat d)) +
           length (filter (\<lambda>m. key m = k) (chatModels p))) \<and>
     (\<forall>k. length (filter (\<lambda>m. key m = k) (embedding d @ embeddingModels p)) =
           length (filter (\<lambda>m. key m = k) (embedding d)) +
           length (filter (\<lambda>m. key m = k) (embeddingModels p)))"
  using assms by (simp add: getModelList_Some)

theorem getModelList_concat_witness:
  "getDefaultModels (config local_provider) llama_net =
     Inr \<lparr> embedding = [llama], chat = [llama] \<rparr> \<and>
   llama_registry (providerId local_provider) =
     Some \<lparr> chatModels = [llama], embeddingModels = [] \<rparr> \<and>
   getModelList local_provider llama_net llama_registry =
     Inr \<lparr> embedding = [llama], chat = [llama, llama] \<rparr>"
proof -
  have d: "getDefaultModels (config local_provider) llama_net =
     Inr \<lparr> embedding = [llama], chat = [llama] \<rparr>"
    by (rule llama_net_models)
  have r: "llama_registry (providerId local_provider) =
     Some \<lparr> chatModels = [llama], embeddingModels = [] \<rparr>"
    by (simp add: local_provider_def llama_registry_p1)
  from getModelList_concat
    [of local_provider llama_net "\<lparr> embedding = [llama], chat = [llama] \<rparr>"
      llama_registry "\<lparr> chatModels = [llama], embeddingModels = [] \<rparr>", OF d r] d r
  show ?thesis by simp
qed

section \<open>Properties of loadChatModel and loadEmbeddingModel\<close>

lemma resolveBaseURL_Cloud: "mode c = Cloud \<Longrightarrow> resolveBaseURL c = ''https://ollama.com''"
  by (simp add: resolveBaseURL_def)

lemma resolveBaseURL_Local:
  "mode c \<noteq> Cloud \<Longrightarrow> resolveBaseURL c = str_or (baseURL c) ''http://localhost:11434''"
  by (cases "mode c"; cases "baseURL c") (simp_all add: resolveBaseURL_def)

lemma loadChatModel_unfold:
  "loadChatModel this fetch reg k =
     (case getModelList this fetch reg of
        Inl e \<Rightarrow> Inl e
      | Inr ml \<Rightarrow>
          (if \<exists>m \<in> set (chat ml). key m = JStr k
           then Inr (OllamaLLM
                  \<lparr> opt_baseURL = resolveBaseURL (config this),
                    opt_model = k,
                    opt_apiKey =
                      (if mode (config this) = Cloud then apiKey (config this) else None) \<rparr>)
           else Inl ChatModelNotFoundError))"
  by (auto simp: loadChatModel_def Let_def find_None_iff resolveBaseURL_Cloud resolveBaseURL_Local
      ChatModelNotFoundError_def split: sum.splits)

lemma loadEmbeddingModel_unfold:
  "loadEmbeddingModel this fetch reg k =
     (case getModelList this fetch reg of
        Inl e \<Rightarrow> Inl e
      | Inr ml \<Rightarrow>
          (if \<exists>m \<in> set (embedding ml). key m = JStr k
           then Inr (OllamaEmbedding
                  \<lparr> opt_baseURL = resolveBaseURL (config this),
                    opt_model = k,
                    opt_apiKey =
                      (if mode (config this) = Cloud then apiKey (config this) else None) \<rparr>)
           else Inl EmbeddingModelNotFoundError))"
  by (auto simp: loadEmbeddingModel_def Let_def find_None_iff resolveBaseURL_Cloud resolveBaseURL_Local
      EmbeddingModelNotFoundError_def split: sum.splits)

text \<open>
  C4. Given the merged list, \<^verbatim>\<open>loadChatModel(key)\<close> fails with the chat
  model-not-found error if and only if no entry of the chat list has exactly that key, and
  otherwise builds a chat client from the resolved base URL, the key as model, and the API
  key in cloud mode, undefined otherwise. \<^verbatim>\<open>loadEmbeddingModel\<close> does the same over the
  embedding list, with an embedding client and a different message. A failure of the
  listing is the failure of the load.
\<close>

theorem load_model_spec:
  "(\<forall>ml. getModelList this fetch reg = Inr ml \<longrightarrow>
      loadChatModel this fetch reg k =
        (if JStr k \<in> key ` set (chat ml)
         then Inr (OllamaLLM
                \<lparr> opt_baseURL = resolveBaseURL (config this),
                  opt_model = k,
                  opt_apiKey =
                    (if mode (config this) = Cloud then apiKey (config this) else None) \<rparr>)
         else Inl ChatModelNotFoundError) \<and>
      loadEmbeddingModel this fetch reg k =
        (if JStr k \<in> key ` set (embedding ml)
         then Inr (OllamaEmbedding
                \<lparr> opt_baseURL = resolveBaseURL (config this),
                  opt_model = k,
                  opt_apiKey =
                    (if mode (config this) = Cloud then apiKey (config this) else None) \<rparr>)
         else Inl EmbeddingModelNotFoundError)) \<and>
   (\<forall>e. getModelList this fetch reg = Inl e \<longrightarrow>
      loadChatModel this fetch reg k = Inl e \<and> loadEmbeddingModel this fetch reg k = Inl e) \<and>
   ChatModelNotFoundError \<noteq> EmbeddingModelNotFoundError \<and>
   ChatModelNotFoundError =
     Exn ErrorC ''Error Loading Ollama Chat Model. Invalid Model Selected'' \<and>
   EmbeddingModelNotFoundError =
     Exn ErrorC ''Error Loading Ollama Embedding Model. Invalid Model Selected.''"
proof (intro conjI allI impI)
  fix ml assume ok: "getModelList this fetch reg = Inr ml"
  have c: "(JStr k \<in> key ` set (chat ml)) = (\<exists>m \<in> set (chat ml). key m = JStr k)"
    by force
  show "loadChatModel this fetch reg k =
        (if JStr k \<in> key ` set (chat ml)
         then Inr (OllamaLLM
                \<lparr> opt_baseURL = resolveBaseURL (config this),
                  opt_model = k,
                  opt_apiKey =
                    (if mode (config this) = Cloud then apiKey (config this) else None) \<rparr>)
         else Inl ChatModelNotFoundError)"
    by (simp only: loadChatModel_unfold ok c sum.case)
  have e: "(JStr k \<in> key ` set (embedding ml)) = (\<exists>m \<in> set (embedding ml). key m = JStr k)"
    by force
  show "loadEmbeddingModel this fetch reg k =
        (if JStr k \<in> key ` set (embedding ml)
         then Inr (OllamaEmbedding
                \<lparr> opt_baseURL = resolveBaseURL (config this),
                  opt_model = k,
                  opt_apiKey =
                    (if mode (config this) = Cloud then apiKey (config this) else None) \<rparr>)
         else Inl EmbeddingModelNotFoundError)"
    by (simp only: loadEmbeddingModel_unfold ok e sum.case)
next
  fix e assume "getModelList this fetch reg = Inl e"
  then show "loadChatModel this fetch reg k = Inl e"
    and "loadEmbeddingModel this fetch reg k = Inl e"
    by (simp_all add: loadChatModel_unfold loadEmbeddingModel_unfold)
next
  show "ChatModelNotFoundError \<noteq> EmbeddingModelNotFoundError"
    by (simp add: ChatModelNotFoundError_def EmbeddingModelNotFoundError_def)
  show "ChatModelNotFoundError =
     Exn ErrorC ''Error Loading Ollama Chat Model. Invalid Model Selected''"
    by (simp add: ChatModelNotFoundError_def)
  show "EmbeddingModelNotFoundError =
     Exn ErrorC ''Error Loading Ollama Embedding Model. Invalid Model Selected.''"
    by (simp add: EmbeddingModelNotFoundError_def)
qed

lemma llama_list_cloud:
  "getModelList cloud_provider llama_net llama_registry =
     Inr \<lparr> embedding = [llama], chat = [llama, llama] \<rparr>"
  by (simp add: getModelList_def llama_net_models cloud_provider_def llama_registry_p1)

theorem load_model_spec_witness:
  "getModelList cloud_provider llama_net llama_registry =
     Inr \<lparr> embedding = [llama], chat = [llama, llama] \<rparr> \<and>
   loadChatModel cloud_provider llama_net llama_registry ''llama3'' =
     Inr (OllamaLLM \<lparr> opt_baseURL = ''https://ollama.com'', opt_model = ''llama3'',
                      opt_apiKey = Some ''k1'' \<rparr>) \<and>
   loadEmbeddingModel cloud_provider llama_net llama_registry ''nonexistent'' =
     Inl EmbeddingModelNotFoundError"
  using load_model_spec [of cloud_provider llama_net llama_registry "''llama3''"]
    load_model_spec [of cloud_provider llama_net llama_registry "''nonexistent''"]
    llama_list_cloud
  by (simp add: llama_def cloud_provider_def cloud_config_def resolveBaseURL_def)

section \<open>The base URL across the operations\<close>

lemma catalogRequest_url: "url (catalogRequest c) = resolveBaseURL c @ ''/api/tags''"
  by (cases "mode c = Cloud")
    (simp_all add: catalogRequest_def Let_def resolveBaseURL_Cloud resolveBaseURL_Local)



section \<open>Falsy values in the raw config\<close>







text \<open>
  C9. On success a falsy \<^verbatim>\<open>baseURL\<close> or \<^verbatim>\<open>apiKey\<close> (the empty string, zero,
  \<^verbatim>\<open>false\<close>, \<^verbatim>\<open>null\<close>) becomes \<^verbatim>\<open>undefined\<close> and is not coerced to a string;
  with a falsy \<^verbatim>\<open>baseURL\<close> in local mode the base URL then resolves to the local
  default. In particular \<^verbatim>\<open>{mode: "local", baseURL: ""}\<close> yields an undefined
  \<^verbatim>\<open>baseURL\<close>.
\<close>

theorem parseAndValidate_falsy_fields:
  "(\<forall>c. parseAndValidate raw = Inr c \<longrightarrow>
      (\<not> truthy (member raw ''baseURL'') \<longrightarrow> baseURL c = None) \<and>
      (\<not> truthy (member raw ''apiKey'') \<longrightarrow> apiKey c = None) \<and>
      (\<not> truthy (member raw ''baseURL'') \<and> mode c = Local \<longrightarrow>
         resolveBaseURL c = ''http://localhost:11434'' \<and>
         url (catalogRequest c) = ''http://localhost:11434/api/tags'')) \<and>
   \<not> truthy (JStr []) \<and> \<not> truthy (JNum (NumInt 0)) \<and> \<not> truthy (JBool False) \<and>
   \<not> truthy JNull \<and>
   parseAndValidate (JObj [(''mode'', JStr ''local''), (''baseURL'', JStr [])]) =
     Inr \<lparr> mode = Local, baseURL = None, apiKey = None \<rparr>"
proof (intro conjI allI impI)
  fix c assume ok: "parseAndValidate raw = Inr c"
  then have c: "c = \<lparr> mode = (if effective_mode raw = JStr ''cloud'' then Cloud else Local),
            baseURL = (if truthy (member raw ''baseURL'')
                       then Some (js_String (member raw ''baseURL'')) else None),
            apiKey = (if truthy (member raw ''apiKey'')
                      then Some (js_String (member raw ''apiKey'')) else None) \<rparr>"
    by (auto simp: parseAndValidate_unfold split: if_splits)
  show "baseURL c = None" if "\<not> truthy (member raw ''baseURL'')"
    using that by (simp add: c)
  show "apiKey c = None" if "\<not> truthy (member raw ''apiKey'')"
    using that by (simp add: c)
  show "resolveBaseURL c = ''http://localhost:11434''"
    if "\<not> truthy (member raw ''baseURL'') \<and> mode c = Local"
    using that by (simp add: c resolveBaseURL_def split: if_splits)
  then show "url (catalogRequest c) = ''http://localhost:11434/api/tags''"
    if "\<not> truthy (member raw ''baseURL'') \<and> mode c = Local"
    using that by (simp add: catalogRequest_url)
next
  show "parseAndValidate (JObj [(''mode'', JStr ''local''), (''baseURL'', JStr [])]) =
     Inr \<lparr> mode = Local, baseURL = None, apiKey = None \<rparr>"
    by (simp add: parseAndValidate_def js_or_def)
qed simp_all

theorem parseAndValidate_falsy_fields_witness:
  "parseAndValidate (JObj [(''baseURL'', JNum (NumInt 0)), (''apiKey'', JNull)]) =
     Inr \<lparr> mode = Local, baseURL = None, apiKey = None \<rparr> \<and>
   \<not> truthy (member (JObj [(''baseURL'', JNum (NumInt 0)), (''apiKey'', JNull)]) ''baseURL'') \<and>
   \<not> truthy (member (JObj [(''baseURL'', JNum (NumInt 0)), (''apiKey'', JNull)]) ''apiKey'') \<and>
   resolveBaseURL \<lparr> mode = Local, baseURL = None, apiKey = None \<rparr> = ''http://localhost:11434''"
proof -
  have p: "parseAndValidate (JObj [(''baseURL'', JNum (NumInt 0)), (''apiKey'', JNull)]) =
     Inr \<lparr> mode = Local, baseURL = None, apiKey = None \<rparr>"
    by (simp add: parseAndValidate_def js_or_def)
  from parseAndValidate_falsy_fields
    [of "JObj [(''baseURL'', JNum (NumInt 0)), (''apiKey'', JNull)]"] p
  show ?thesis by (simp add: member_def)
qed

section \<open>The registry entry as a precondition\<close>

lemma getDefaultModels_no_TypeError:
  "getDefaultModels c fetch = Inl e \<Longrightarrow> cls e \<noteq> TypeErrorC"
  by (auto simp: getDefaultModels_def split: sum.splits if_splits)

lemma getModelList_no_entry:
  "reg (providerId this) = None \<Longrightarrow>
     getModelList this fetch reg =
       (case getDefaultModels (config this) fetch of
          Inl e \<Rightarrow> Inl e
        | Inr d \<Rightarrow> Inl UndefinedProviderError)"
  by (simp add: getModelList_def UndefinedProviderError_def split: sum.splits)

lemma getModelList_entry:
  "reg (providerId this) = Some p \<Longrightarrow>
     getModelList this fetch reg =
       (case getDefaultModels (config this) fetch of
          Inl e \<Rightarrow> Inl e
        | Inr d \<Rightarrow>
            Inr \<lparr> embedding = embedding d @ embeddingModels p,
                  chat = chat d @ chatModels p \<rparr>)"
  by (simp add: getModelList_def split: sum.splits)

text \<open>
  C10. When the registry has no entry for the provider's id, \<^verbatim>\<open>getModelList\<close>, and
  with it \<^verbatim>\<open>loadChatModel\<close> and \<^verbatim>\<open>loadEmbeddingModel\<close>, always fails: with the
  failure of the catalog listing if that failed, and otherwise with the TypeError of
  reading a property of \<^verbatim>\<open>undefined\<close>, which is none of the specified error kinds.
  When the registry has an entry, \<^verbatim>\<open>getModelList\<close> fails only as the catalog listing
  fails, and never with a TypeError.
\<close>

theorem registry_precondition:
  "(reg (providerId this) = None \<longrightarrow>
      getModelList this fetch reg =
        (case getDefaultModels (config this) fetch of
           Inl e \<Rightarrow> Inl e
         | Inr d \<Rightarrow> Inl UndefinedProviderError) \<and>
      loadChatModel this fetch reg k =
        (case getDefaultModels (config this) fetch of
           Inl e \<Rightarrow> Inl e
         | Inr d \<Rightarrow> Inl UndefinedProviderError) \<and>
      loadEmbeddingModel this fetch reg k =
        (case getDefaultModels (config this) fetch of
           Inl e \<Rightarrow> Inl e
         | Inr d \<Rightarrow> Inl UndefinedProviderError)) \<and>
   cls UndefinedProviderError = TypeErrorC \<and>
   \<not> is_specified_error UndefinedProviderError \<and>
   (\<forall>p. reg (providerId this) = Some p \<longrightarrow>
      (isl (getModelList this fetch reg) \<longleftrightarrow> isl (getDefaultModels (config this) fetch)) \<and>
      (\<forall>e. getModelList this fetch reg = Inl e \<longrightarrow>
         getDefaultModels (config this) fetch = Inl e \<and> cls e \<noteq> TypeErrorC \<and>
         e \<noteq> UndefinedProviderError))"
proof (intro conjI allI impI)
  assume n: "reg (providerId this) = None"
  show g: "getModelList this fetch reg =
        (case getDefaultModels (config this) fetch of
           Inl e \<Rightarrow> Inl e
         | Inr d \<Rightarrow> Inl UndefinedProviderError)"
    using n by (simp add: getModelList_no_entry)
  show "loadChatModel this fetch reg k =
        (case getDefaultModels (config this) fetch of
           Inl e \<Rightarrow> Inl e
         | Inr d \<Rightarrow> Inl UndefinedProviderError)"
    by (simp add: loadChatModel_unfold g split: sum.splits)
  show "loadEmbeddingModel this fetch reg k =
        (case getDefaultModels (config this) fetch of
           Inl e \<Rightarrow> Inl e
         | Inr d \<Rightarrow> Inl UndefinedProviderError)"
    by (simp add: loadEmbeddingModel_unfold g split: sum.splits)
next
  show "cls UndefinedProviderError = TypeErrorC"
    by (simp add: UndefinedProviderError_def)
  show "\<not> is_specified_error UndefinedProviderError"
    by (simp add: is_specified_error_def is_ConfigError_def UndefinedProviderError_def
        ConnectionError_def ChatModelNotFoundError_def EmbeddingModelNotFoundError_def)
next
  fix p assume s: "reg (providerId this) = Some p"
  show "isl (getModelList this fetch reg) \<longleftrightarrow> isl (getDefaultModels (config this) fetch)"
    using s by (simp add: getModelList_entry split: sum.splits)
  fix e assume f: "getModelList this fetch reg = Inl e"
  then show d: "getDefaultModels (config this) fetch = Inl e"
    using s by (simp add: getModelList_entry split: sum.splits)
  then show t: "cls e \<noteq> TypeErrorC"
    by (rule getDefaultModels_no_TypeError)
  then show "e \<noteq> UndefinedProviderError"
    by (auto simp: UndefinedProviderError_def)
qed

theorem registry_precondition_witness:
  "no_registry (providerId local_provider) = None \<and>
   getModelList local_provider llama_net no_registry = Inl UndefinedProviderError \<and>
   loadChatModel local_provider llama_net no_registry ''llama3'' = Inl UndefinedProviderError \<and>
   llama_registry (providerId local_provider) =
     Some \<lparr> chatModels = [llama], embeddingModels = [] \<rparr> \<and>
   getModelList local_provider (refuse (Exn SyntaxErrorC ''Unexpected token'')) llama_registry =
     Inl (Exn SyntaxErrorC ''Unexpected token'')"
proof -
  have n: "no_registry (providerId local_provider) = None"
    by (simp add: no_registry_def)
  have r: "llama_registry (providerId local_provider) =
     Some \<lparr> chatModels = [llama], embeddingModels = [] \<rparr>"
    by (simp add: local_provider_def llama_registry_p1)
  have d: "getDefaultModels (config local_provider) llama_net =
     Inr \<lparr> embedding = [llama], chat = [llama] \<rparr>"
    by (rule llama_net_models)
  have g: "getModelList local_provider (refuse (Exn SyntaxErrorC ''Unexpected token''))
      llama_registry = Inl (Exn SyntaxErrorC ''Unexpected token'')"
    by (simp add: getModelList_def getDefaultModels_def getDefaultModels_try_def refuse_def)
  from registry_precondition [of no_registry local_provider llama_net "''llama3''"]
    registry_precondition
      [of llama_registry local_provider "refuse (Exn SyntaxErrorC ''Unexpected token'')"
        "''llama3''"]
    n r d g
  show ?thesis by simp
qed

end
